theory Spec2Isabelle
  imports Main
begin

section \<open>Values, requests and responses\<close>

text \<open>
  The server (\<^verbatim>\<open>server.py\<close>) moves JSON between an agent and a banking API. A parsed
  JSON document is a Python value: \<^verbatim>\<open>None\<close>, a bool, an int, a str, a list or a dict
  with string keys. A dict is an association list in insertion order with distinct keys.
  Numbers with a fractional part (Python floats) are not part of this model.
\<close>

datatype json =
    JNull
  | JBool bool
  | JInt int
  | JStr string
  | JList "json list"
  | JObj "(string \<times> json) list"

text \<open>Python truthiness, as \<^verbatim>\<open>if x:\<close> and \<^verbatim>\<open>x and y\<close> test it.\<close>

fun truthy :: "json \<Rightarrow> bool" where
  "truthy JNull = False"
| "truthy (JBool b) = b"
| "truthy (JInt n) = (n \<noteq> 0)"
| "truthy (JStr s) = (s \<noteq> [])"
| "truthy (JList xs) = (xs \<noteq> [])"
| "truthy (JObj kvs) = (kvs \<noteq> [])"

text \<open>
  What \<^verbatim>\<open>httpx\<close> hands back for a request: a response with its status code, its body
  text and the value \<^verbatim>\<open>response.json()\<close> gives for that text (\<open>None\<close> when the text is
  not JSON, where \<^verbatim>\<open>response.json()\<close> raises), or no response at all (connection refused,
  timeout, ...).
\<close>

record response =
  status_code :: int
  body_text :: string
  json_body :: "json option"

datatype outcome = Reply response | TransportFailure

text \<open>Every exception the modelled code can raise.\<close>

datatype error =
    HTTPStatusError response
  | TransportError
  | JSONDecodeError
  | KeyError string
  | TypeError
  | OverflowError
  | ValueError string

text \<open>
  An outbound HTTP request as the code builds it: the arguments of \<^verbatim>\<open>client.get\<close> and
  \<^verbatim>\<open>client.post\<close>. \<open>req_auth\<close> is \<^verbatim>\<open>httpx.BasicAuth(id, secret)\<close>, \<open>req_data\<close> the
  form fields, \<open>req_json\<close> the JSON body.
\<close>

record request =
  req_method :: string
  req_url :: string
  req_headers :: "(string \<times> string) list"
  req_params :: "(string \<times> json) list option"
  req_auth :: "(string \<times> string) option"
  req_data :: "(string \<times> string) list option"
  req_json :: "json option"

text \<open>
  Everything the process reads from outside: the configuration loaded at start-up, the
  clock (\<open>now k\<close> is what the \<open>k\<close>-th call of \<^verbatim>\<open>datetime.now()\<close> returns, in microseconds
  since 0001-01-01 00:00:00), the network (\<open>http k r\<close> is the outcome of request \<open>r\<close> when
  it is the \<open>k\<close>-th request sent), and two library functions taken as they are:
  \<open>py_str\<close>, Python's \<^verbatim>\<open>str()\<close> on a value that is not a string, and \<open>json_dumps\<close>,
  \<^verbatim>\<open>json.dumps(_, indent=2)\<close>.
\<close>

record env =
  CLIENT_ID :: string
  CLIENT_SECRET :: string
  API_KEY :: string
  BASE_URL :: string
  now :: "nat \<Rightarrow> int"
  http :: "nat \<Rightarrow> request \<Rightarrow> outcome"
  py_str :: "json \<Rightarrow> string"
  json_dumps :: "json \<Rightarrow> string"

text \<open>
  The mutable state: the two module globals \<^verbatim>\<open>access_token\<close> and \<^verbatim>\<open>token_expiry\<close>
  (\<open>JNull\<close> and \<open>None\<close> are Python's \<^verbatim>\<open>None\<close>), the requests sent so far, oldest first,
  and the number of clock readings taken so far.
\<close>

record world =
  access_token :: json
  token_expiry :: "int option"
  sent :: "request list"
  clock_reads :: nat

section \<open>Library behaviour the code relies on\<close>

text \<open>\<^verbatim>\<open>d[k]\<close> on a parsed JSON value: only a dict can be indexed by a string.\<close>

fun subscript :: "json \<Rightarrow> string \<Rightarrow> error + json" where
  "subscript (JObj kvs) k = (case map_of kvs k of None \<Rightarrow> Inl (KeyError k) | Some v \<Rightarrow> Inr v)"
| "subscript _ k = Inl TypeError"

text \<open>\<^verbatim>\<open>d[k] = v\<close> on a dict: replace in place, or append a new key.\<close>

fun dict_set :: "('k \<times> 'v) list \<Rightarrow> 'k \<Rightarrow> 'v \<Rightarrow> ('k \<times> 'v) list" where
  "dict_set [] k v = [(k, v)]"
| "dict_set ((k', v') # kvs) k v = (if k' = k then (k, v) # kvs else (k', v') # dict_set kvs k v)"

text \<open>\<^verbatim>\<open>x - 60\<close>: defined on ints and on bools (a bool is an int in Python).\<close>

fun minus_60 :: "json \<Rightarrow> error + int" where
  "minus_60 (JInt n) = Inr (n - 60)"
| "minus_60 (JBool b) = Inr ((if b then 1 else 0) - 60)"
| "minus_60 _ = Inl TypeError"

text \<open>
  \<^verbatim>\<open>timedelta(seconds=k)\<close> in microseconds; it raises when the day count leaves
  \<open>\<plusminus>999999999\<close>.
\<close>

definition timedelta_seconds :: "int \<Rightarrow> error + int" where
  "timedelta_seconds k =
     (if k div 86400 < - 999999999 \<or> 999999999 < k div 86400 then Inl OverflowError
      else Inr (k * 1000000))"

text \<open>
  \<^verbatim>\<open>datetime + timedelta\<close>: the result has to lie between 0001-01-01 and the end of
  9999-12-31 (3652059 days).
\<close>

definition datetime_max :: int where
  "datetime_max = 3652059 * 86400 * 1000000"

definition datetime_add :: "int \<Rightarrow> int \<Rightarrow> error + int" where
  "datetime_add d delta =
     (if 0 \<le> d + delta \<and> d + delta < datetime_max then Inr (d + delta) else Inl OverflowError)"

text \<open>\<^verbatim>\<open>response.raise_for_status()\<close> lets exactly the 2xx statuses through.\<close>

definition is_success :: "response \<Rightarrow> bool" where
  "is_success r = (200 \<le> status_code r \<and> status_code r \<le> 299)"

text \<open>\<^verbatim>\<open>str.upper()\<close> on ASCII text.\<close>

definition upper_char :: "char \<Rightarrow> char" where
  "upper_char c =
     (case map_of (zip ''abcdefghijklmnopqrstuvwxyz'' ''ABCDEFGHIJKLMNOPQRSTUVWXYZ'') c of
        Some u \<Rightarrow> u
      | None \<Rightarrow> c)"

definition upper :: "string \<Rightarrow> string" where
  "upper s = map upper_char s"

text \<open>A value inside an f-string: a string as it is, anything else through \<^verbatim>\<open>str()\<close>.\<close>

definition fmt :: "env \<Rightarrow> json \<Rightarrow> string" where
  "fmt E v = (case v of JStr s \<Rightarrow> s | _ \<Rightarrow> py_str E v)"

text \<open>Reading the clock and sending a request, with their bookkeeping.\<close>

definition read_clock :: "env \<Rightarrow> world \<Rightarrow> int \<times> world" where
  "read_clock E w = (now E (clock_reads w), w\<lparr>clock_reads := Suc (clock_reads w)\<rparr>)"

definition send :: "env \<Rightarrow> request \<Rightarrow> world \<Rightarrow> outcome \<times> world" where
  "send E r w = (http E (length (sent w)) r, w\<lparr>sent := sent w @ [r]\<rparr>)"

section \<open>The credential manager: \<^verbatim>\<open>get_access_token\<close>\<close>

text \<open>The token request of lines 55 to 68.\<close>

definition token_request :: "env \<Rightarrow> request" where
  "token_request E =
     \<lparr>req_method = ''POST'',
      req_url = BASE_URL E @ ''/identity/v2/oauth2/token'',
      req_headers = [(''x-api-key'', API_KEY E)],
      req_params = None,
      req_auth = Some (CLIENT_ID E, CLIENT_SECRET E),
      req_data = Some [(''grant_type'', ''client_credentials'')],
      req_json = None\<rparr>"

text \<open>
  The test of line 48:
  \<^verbatim>\<open>access_token and token_expiry and token_expiry > current_time\<close>.
\<close>

definition cache_usable :: "int \<Rightarrow> world \<Rightarrow> bool" where
  "cache_usable current_time w =
     (truthy (access_token w) \<and>
      (case token_expiry w of None \<Rightarrow> False | Some expiry \<Rightarrow> expiry > current_time))"

text \<open>
  Lines 69 to 88, what the call does once the token endpoint has answered:
  \<^verbatim>\<open>raise_for_status()\<close>, \<^verbatim>\<open>response.json()\<close>, the assignment of \<^verbatim>\<open>access_token\<close>
  (line 78), then the second clock reading and the computation of \<^verbatim>\<open>token_expiry\<close>
  (lines 80 to 82, operands evaluated left to right), then \<^verbatim>\<open>return access_token\<close>.
  The \<^verbatim>\<open>except\<close> clause logs and re-raises, so every error passes through unchanged.
\<close>

definition handle_token_response :: "env \<Rightarrow> outcome \<Rightarrow> world \<Rightarrow> (error + json) \<times> world" where
  "handle_token_response E out w =
     (case out of
        TransportFailure \<Rightarrow> (Inl TransportError, w)
      | Reply response \<Rightarrow>
          if \<not> is_success response then (Inl (HTTPStatusError response), w)
          else (case json_body response of
            None \<Rightarrow> (Inl JSONDecodeError, w)
          | Some result \<Rightarrow>
              (case subscript result ''access_token'' of
                 Inl e \<Rightarrow> (Inl e, w)
               | Inr tok \<Rightarrow>
                   let w1 = w\<lparr>access_token := tok\<rparr>;
                       (t, w2) = read_clock E w1
                   in (case subscript result ''expires_in'' of
                         Inl e \<Rightarrow> (Inl e, w2)
                       | Inr x \<Rightarrow>
                      (case minus_60 x of
                         Inl e \<Rightarrow> (Inl e, w2)
                       | Inr k \<Rightarrow>
                      (case timedelta_seconds k of
                         Inl e \<Rightarrow> (Inl e, w2)
                       | Inr delta \<Rightarrow>
                      (case datetime_add t delta of
                         Inl e \<Rightarrow> (Inl e, w2)
                       | Inr expiry \<Rightarrow>
                           let w3 = w2\<lparr>token_expiry := Some expiry\<rparr>
                           in (Inr (access_token w3), w3))))))))"

definition get_access_token :: "env \<Rightarrow> world \<Rightarrow> (error + json) \<times> world" where
  "get_access_token E w =
     (let (current_time, w1) = read_clock E w in
      if cache_usable current_time w1 then (Inr (access_token w1), w1)
      else
        let (out, w2) = send E (token_request E) w1
        in handle_token_response E out w2)"

section \<open>The API gateway: \<^verbatim>\<open>make_api_request\<close>\<close>

text \<open>Lines 114 and 115: \<^verbatim>\<open>response.raise_for_status()\<close>, then \<^verbatim>\<open>return response.json()\<close>.\<close>

definition raise_or_json :: "outcome \<times> world \<Rightarrow> (error + json) \<times> world" where
  "raise_or_json ow =
     (case ow of
        (TransportFailure, w) \<Rightarrow> (Inl TransportError, w)
      | (Reply response, w) \<Rightarrow>
          if \<not> is_success response then (Inl (HTTPStatusError response), w)
          else (case json_body response of
                  None \<Rightarrow> (Inl JSONDecodeError, w)
                | Some j \<Rightarrow> (Inr j, w)))"

definition make_api_request ::
    "env \<Rightarrow> string \<Rightarrow> string \<Rightarrow> (string \<times> json) list option \<Rightarrow> json option \<Rightarrow> world
      \<Rightarrow> (error + json) \<times> world" where
  "make_api_request E method endpoint params json_data w =
     (case get_access_token E w of
        (Inl e, w1) \<Rightarrow> (Inl e, w1)
      | (Inr token, w1) \<Rightarrow>
          let headers = [(''Authorization'', ''Bearer '' @ fmt E token),
                         (''Accept'', ''application/json'')];
              url = BASE_URL E @ endpoint
          in if upper method = ''GET'' then
               raise_or_json (send E
                 \<lparr>req_method = ''GET'', req_url = url, req_headers = headers,
                  req_params = params, req_auth = None, req_data = None,
                  req_json = None\<rparr> w1)
             else if upper method = ''POST'' then
               let headers = dict_set headers ''Content-Type'' ''application/json''
               in raise_or_json (send E
                 \<lparr>req_method = ''POST'', req_url = url, req_headers = headers,
                  req_params = params, req_auth = None, req_data = None,
                  req_json = json_data\<rparr> w1)
             else (Inl (ValueError (''Unsupported method: '' @ method)), w1))"

section \<open>Tools\<close>

text \<open>Every tool ends with \<^verbatim>\<open>return json.dumps(result, indent=2)\<close>.\<close>

definition dumped :: "env \<Rightarrow> (error + json) \<times> world \<Rightarrow> (error + string) \<times> world" where
  "dumped E rw = (case rw of (Inl e, w) \<Rightarrow> (Inl e, w) | (Inr j, w) \<Rightarrow> (Inr (json_dumps E j), w))"

definition get_account_balance :: "env \<Rightarrow> string \<Rightarrow> world \<Rightarrow> (error + string) \<times> world" where
  "get_account_balance E accountId w =
     dumped E (make_api_request E ''GET''
       (''/za/pb/v1/accounts/'' @ accountId @ ''/balance'') None None w)"

definition get_account_transactions ::
    "env \<Rightarrow> string \<Rightarrow> string \<Rightarrow> string \<Rightarrow> string option \<Rightarrow> bool option \<Rightarrow> world
      \<Rightarrow> (error + string) \<times> world" where
  "get_account_transactions E accountId fromDate toDate transactionType includePending w =
     (let params = [];
          params = (if fromDate \<noteq> [] then dict_set params ''fromDate'' (JStr fromDate)
                    else params);
          params = (if toDate \<noteq> [] then dict_set params ''toDate'' (JStr toDate)
                    else params);
          params = (case transactionType of
                      Some t \<Rightarrow> if t \<noteq> [] then dict_set params ''transactionType'' (JStr t)
                                else params
                    | None \<Rightarrow> params);
          params = (if includePending = Some True
                    then dict_set params ''includePending'' (JStr ''true'')
                    else params)
      in dumped E (make_api_request E ''GET''
           (''/za/pb/v1/accounts/'' @ accountId @ ''/transactions'') (Some params) None w))"

text \<open>A \<^verbatim>\<open>dict[str, str]\<close> as a JSON object.\<close>

definition str_dict :: "(string \<times> string) list \<Rightarrow> json" where
  "str_dict d = JObj (map (\<lambda>(k, v). (k, JStr v)) d)"

definition transfer_multiple ::
    "env \<Rightarrow> string \<Rightarrow> (string \<times> string) list list \<Rightarrow> string option \<Rightarrow> world
      \<Rightarrow> (error + string) \<times> world" where
  "transfer_multiple E accountId transferList profileId w =
     (let data = [(''transferList'', JList (map str_dict transferList))];
          data = (case profileId of
                    Some p \<Rightarrow> dict_set data ''profileId'' (JStr p)
                  | None \<Rightarrow> data)
      in dumped E (make_api_request E ''POST''
           (''/za/pb/v1/accounts/'' @ accountId @ ''/transfermultiple'') None
           (Some (JObj data)) w))"

section \<open>Concurrent calls of \<^verbatim>\<open>get_access_token\<close>\<close>

text \<open>
  The calls run as coroutines on one event loop: a call runs alone until it waits for the
  network at \<^verbatim>\<open>await client.post(...)\<close> (line 66) and runs alone again once its response
  is there. \<open>token_begin\<close> is the part before the wait (lines 47 to 68): it answers from
  the cache, or sends the token request and waits for the outcome of that request.
  After the wait the call continues with \<open>handle_token_response\<close>.
\<close>

definition token_begin :: "env \<Rightarrow> world \<Rightarrow> (json + nat) \<times> world" where
  "token_begin E w =
     (let (current_time, w1) = read_clock E w in
      if cache_usable current_time w1 then (Inl (access_token w1), w1)
      else (Inr (length (sent w1)), snd (send E (token_request E) w1)))"

datatype task = NotStarted | Awaiting nat | Returned "error + json"

datatype event = Start nat | Resume nat

fun step :: "env \<Rightarrow> event \<Rightarrow> task list \<times> world \<Rightarrow> task list \<times> world" where
  "step E (Start i) (ts, w) =
     (if i < length ts \<and> ts ! i = NotStarted then
        (case token_begin E w of
           (Inl tok, w1) \<Rightarrow> (ts[i := Returned (Inr tok)], w1)
         | (Inr k, w1) \<Rightarrow> (ts[i := Awaiting k], w1))
      else (ts, w))"
| "step E (Resume i) (ts, w) =
     (if i < length ts then
        (case ts ! i of
           Awaiting k \<Rightarrow>
             (case handle_token_response E (http E k (token_request E)) w of
                (r, w1) \<Rightarrow> (ts[i := Returned r], w1))
         | _ \<Rightarrow> (ts, w))
      else (ts, w))"

fun run :: "env \<Rightarrow> event list \<Rightarrow> task list \<times> world \<Rightarrow> task list \<times> world" where
  "run E [] c = c"
| "run E (e # es) c = run E es (step E e c)"

section \<open>Concrete environments\<close>

text \<open>
  The state at start-up (lines 39 and 40), a state with a cached token, and small
  environments on which the functions above are evaluated below. Times are microseconds;
  \<open>noon\<close> is a moment in the year 2025.
\<close>

definition initial_world :: world where
  "initial_world = \<lparr>access_token = JNull, token_expiry = None, sent = [], clock_reads = 0\<rparr>"

definition cached_world :: "string \<Rightarrow> int \<Rightarrow> world" where
  "cached_world tok expiry =
     \<lparr>access_token = JStr tok, token_expiry = Some expiry, sent = [], clock_reads = 0\<rparr>"

definition noon :: int where
  "noon = 63900000000000000"

definition example_env :: "(nat \<Rightarrow> int) \<Rightarrow> (nat \<Rightarrow> request \<Rightarrow> outcome) \<Rightarrow> env" where
  "example_env clock net =
     \<lparr>CLIENT_ID = ''id'', CLIENT_SECRET = ''secret'', API_KEY = ''key'',
      BASE_URL = ''https://openapi.investec.com'',
      now = clock, http = net,
      py_str = (\<lambda>v. []), json_dumps = (\<lambda>v. [])\<rparr>"

text \<open>A clock that stands still, and one that moves on by a second at every reading.\<close>

definition frozen_clock :: "nat \<Rightarrow> int" where
  "frozen_clock k = noon"

definition ticking_clock :: "nat \<Rightarrow> int" where
  "ticking_clock k = noon + int k * 1000000"

definition quoted :: "string \<Rightarrow> string" where
  "quoted s = CHR 0x22 # s @ [CHR 0x22]"

text \<open>Token endpoint answers: a token good for 300 seconds, and one without a lifetime.\<close>

definition token_reply :: "int \<Rightarrow> string \<Rightarrow> outcome" where
  "token_reply status tok =
     Reply \<lparr>status_code = status,
       body_text = ''{'' @ quoted ''access_token'' @ '': '' @ quoted tok @ '', ''
                     @ quoted ''expires_in'' @ '': 300}'',
       json_body = Some (JObj [(''access_token'', JStr tok), (''expires_in'', JInt 300)])\<rparr>"

definition token_reply_no_expiry :: "string \<Rightarrow> outcome" where
  "token_reply_no_expiry tok =
     Reply \<lparr>status_code = 200,
       body_text = ''{'' @ quoted ''access_token'' @ '': '' @ quoted tok @ ''}'',
       json_body = Some (JObj [(''access_token'', JStr tok)])\<rparr>"

definition unauthorized :: response where
  "unauthorized =
     \<lparr>status_code = 401,
      body_text = ''{'' @ quoted ''error'' @ '': '' @ quoted ''invalid_client'' @ ''}'',
      json_body = Some (JObj [(''error'', JStr ''invalid_client'')])\<rparr>"

definition not_found :: response where
  "not_found =
     \<lparr>status_code = 404,
      body_text = ''{'' @ quoted ''message'' @ '':'' @ quoted ''not found'' @ ''}'',
      json_body = Some (JObj [(''message'', JStr ''not found'')])\<rparr>"

definition balance_ok :: response where
  "balance_ok =
     \<lparr>status_code = 200,
      body_text = ''{'' @ quoted ''data'' @ '': {}}'',
      json_body = Some (JObj [(''data'', JObj [])])\<rparr>"

text \<open>The outcome of the request sent last.\<close>

definition last_outcome :: "env \<Rightarrow> world \<Rightarrow> outcome" where
  "last_outcome E w = http E (length (sent w) - 1) (last (sent w))"

section \<open>Evaluation and basic facts\<close>

lemmas example_defs =
  initial_world_def cached_world_def noon_def example_env_def frozen_clock_def
  ticking_clock_def quoted_def token_reply_def token_reply_no_expiry_def unauthorized_def
  not_found_def balance_ok_def

lemmas library_defs =
  is_success_def timedelta_seconds_def datetime_add_def datetime_max_def upper_def
  upper_char_def fmt_def read_clock_def send_def

lemmas program_defs =
  token_request_def cache_usable_def handle_token_response_def get_access_token_def
  raise_or_json_def make_api_request_def dumped_def

lemmas tool_defs =
  get_account_balance_def get_account_transactions_def transfer_multiple_def str_dict_def
  last_outcome_def

lemmas schedule_defs = token_begin_def

lemma cache_usable_upd [simp]:
  "cache_usable t (w\<lparr>clock_reads := c\<rparr>) = cache_usable t w"
  "cache_usable t (w\<lparr>sent := q\<rparr>) = cache_usable t w"
  by (simp_all add: cache_usable_def)

lemma handle_sent: "sent (snd (handle_token_response E out w)) = sent w"
  by (auto simp: handle_token_response_def read_clock_def Let_def
      split: outcome.splits option.splits sum.splits)

lemma handle_ok:
  "fst (handle_token_response E out w) = Inr tok \<Longrightarrow>
     \<exists>r body. out = Reply r \<and> is_success r \<and> json_body r = Some body \<and>
       subscript body ''access_token'' = Inr tok"
  by (auto simp: handle_token_response_def read_clock_def Let_def
      split: outcome.splits option.splits sum.splits if_splits)

lemma handle_failure:
  "handle_token_response E TransportFailure w = (Inl TransportError, w)"
  "\<not> is_success r \<Longrightarrow> handle_token_response E (Reply r) w = (Inl (HTTPStatusError r), w)"
  by (simp_all add: handle_token_response_def)


lemma get_access_token_miss:
  "\<not> cache_usable (now E (clock_reads w)) w \<Longrightarrow>
   get_access_token E w =
      handle_token_response E (http E (length (sent w)) (token_request E))
        (w\<lparr>clock_reads := Suc (clock_reads w), sent := sent w @ [token_request E]\<rparr>)"
  by (simp add: get_access_token_def read_clock_def send_def)

lemma get_access_token_hit:
  "cache_usable (now E (clock_reads w)) w \<Longrightarrow>
   get_access_token E w = (Inr (access_token w), w\<lparr>clock_reads := Suc (clock_reads w)\<rparr>)"
  by (simp add: get_access_token_def read_clock_def send_def)

lemma get_access_token_sent:
  "sent (snd (get_access_token E w)) =
     (if cache_usable (now E (clock_reads w)) w then sent w else sent w @ [token_request E])"
  by (simp add: get_access_token_miss get_access_token_hit handle_sent)

section \<open>Properties of the credential manager\<close>

text \<open>
  Claim C1. While a cached token exists (a truthy \<^verbatim>\<open>access_token\<close>) and the clock reads a
  time strictly before \<^verbatim>\<open>token_expiry\<close>, \<^verbatim>\<open>get_access_token\<close> returns the cached token
  and sends nothing: the state changes by the one clock reading only. Once the clock has
  reached or passed \<^verbatim>\<open>token_expiry\<close>, the call sends the token request, and a token it
  returns is the \<^verbatim>\<open>access_token\<close> of the response to that request, not the cached one.
\<close>

theorem C1_cached_token_reuse:
  "(truthy (access_token w) \<and> token_expiry w = Some e \<and> now E (clock_reads w) < e \<longrightarrow>
      get_access_token E w = (Inr (access_token w), w\<lparr>clock_reads := Suc (clock_reads w)\<rparr>))
   \<and> (token_expiry w = Some e \<and> e \<le> now E (clock_reads w) \<longrightarrow>
      sent (snd (get_access_token E w)) = sent w @ [token_request E] \<and>
      (\<forall>tok. fst (get_access_token E w) = Inr tok \<longrightarrow>
         (\<exists>r body. http E (length (sent w)) (token_request E) = Reply r \<and> is_success r \<and>
            json_body r = Some body \<and> subscript body ''access_token'' = Inr tok)))"
proof (intro conjI impI)
  assume "truthy (access_token w) \<and> token_expiry w = Some e \<and> now E (clock_reads w) < e"
  then have "cache_usable (now E (clock_reads w)) w"
    by (simp add: cache_usable_def)
  then show "get_access_token E w = (Inr (access_token w), w\<lparr>clock_reads := Suc (clock_reads w)\<rparr>)"
    by (rule get_access_token_hit)
next
  assume "token_expiry w = Some e \<and> e \<le> now E (clock_reads w)"
  then have miss: "\<not> cache_usable (now E (clock_reads w)) w"
    by (simp add: cache_usable_def)
  show "sent (snd (get_access_token E w)) = sent w @ [token_request E]"
    using miss by (simp add: get_access_token_sent)
  show "\<forall>tok. fst (get_access_token E w) = Inr tok \<longrightarrow>
         (\<exists>r body. http E (length (sent w)) (token_request E) = Reply r \<and> is_success r \<and>
            json_body r = Some body \<and> subscript body ''access_token'' = Inr tok)"
    using handle_ok by (simp add: get_access_token_miss[OF miss])
qed

text \<open>
  A token five minutes from expiry is returned with no request; at the moment of expiry
  the token request goes out and the new token is returned.
\<close>

theorem C1_witness:
  "get_access_token (example_env frozen_clock (\<lambda>k q. TransportFailure))
      (cached_world ''tok1'' (noon + 300 * 1000000)) =
     (Inr (JStr ''tok1''),
      \<lparr>access_token = JStr ''tok1'', token_expiry = Some (noon + 300 * 1000000), sent = [],
       clock_reads = 1\<rparr>)
   \<and> sent (snd (get_access_token (example_env frozen_clock (\<lambda>k q. token_reply 200 ''tok2''))
        (cached_world ''tok1'' noon))) =
       [token_request (example_env frozen_clock (\<lambda>k q. token_reply 200 ''tok2''))]
   \<and> fst (get_access_token (example_env frozen_clock (\<lambda>k q. token_reply 200 ''tok2''))
        (cached_world ''tok1'' noon)) = Inr (JStr ''tok2'')"
  using C1_cached_token_reuse[of "cached_world ''tok1'' (noon + 300 * 1000000)"
      "noon + 300 * 1000000" "example_env frozen_clock (\<lambda>k q. TransportFailure)"]
    C1_cached_token_reuse[of "cached_world ''tok1'' noon" noon
      "example_env frozen_clock (\<lambda>k q. token_reply 200 ''tok2'')"]
  by (simp add: program_defs library_defs example_defs)

text \<open>
  Claim C3, as the code has it. On the refresh path, when the token endpoint answers with
  a status outside 200..299 the call fails with the \<^verbatim>\<open>HTTPStatusError\<close> that carries the
  response (status and body), and when the transport fails the call fails with the
  transport error; in both cases \<^verbatim>\<open>access_token\<close> and \<^verbatim>\<open>token_expiry\<close> are what they were
  before the call.
\<close>

theorem C3_failed_refresh_keeps_cache:
  assumes "\<not> cache_usable (now E (clock_reads w)) w"
  shows "(http E (length (sent w)) (token_request E) = Reply r \<and> \<not> is_success r \<longrightarrow>
            fst (get_access_token E w) = Inl (HTTPStatusError r) \<and>
            access_token (snd (get_access_token E w)) = access_token w \<and>
            token_expiry (snd (get_access_token E w)) = token_expiry w)
       \<and> (http E (length (sent w)) (token_request E) = TransportFailure \<longrightarrow>
            fst (get_access_token E w) = Inl TransportError \<and>
            access_token (snd (get_access_token E w)) = access_token w \<and>
            token_expiry (snd (get_access_token E w)) = token_expiry w)"
  using assms by (simp add: get_access_token_miss handle_failure)

text \<open>A 401 and a transport failure, with an expired token in the cache.\<close>

theorem C3_witness:
  "\<not> cache_usable noon (cached_world ''old'' (noon - 1)) \<and> \<not> is_success unauthorized \<and>
   get_access_token (example_env frozen_clock (\<lambda>k q. Reply unauthorized))
      (cached_world ''old'' (noon - 1)) =
     (Inl (HTTPStatusError unauthorized),
      \<lparr>access_token = JStr ''old'', token_expiry = Some (noon - 1),
       sent = [token_request (example_env frozen_clock (\<lambda>k q. Reply unauthorized))],
       clock_reads = 1\<rparr>)
   \<and> get_access_token (example_env frozen_clock (\<lambda>k q. TransportFailure))
      (cached_world ''old'' (noon - 1)) =
     (Inl TransportError,
      \<lparr>access_token = JStr ''old'', token_expiry = Some (noon - 1),
       sent = [token_request (example_env frozen_clock (\<lambda>k q. TransportFailure))],
       clock_reads = 1\<rparr>)"
  using C3_failed_refresh_keeps_cache[of "example_env frozen_clock (\<lambda>k q. Reply unauthorized)"
      "cached_world ''old'' (noon - 1)" unauthorized]
    C3_failed_refresh_keeps_cache[of "example_env frozen_clock (\<lambda>k q. TransportFailure)"
      "cached_world ''old'' (noon - 1)" unauthorized]
  by (simp add: program_defs library_defs example_defs)

text \<open>
  A 201 response is not 200, yet \<^verbatim>\<open>raise_for_status()\<close> lets it through: the call
  succeeds and the cached token and expiry are replaced.
\<close>

theorem C3_status_201_counterexample:
  "get_access_token (example_env frozen_clock (\<lambda>k q. token_reply 201 ''new''))
      (cached_world ''old'' (noon - 1)) =
     (Inr (JStr ''new''),
      \<lparr>access_token = JStr ''new'', token_expiry = Some (noon + 240 * 1000000),
       sent = [token_request (example_env frozen_clock (\<lambda>k q. token_reply 201 ''new''))],
       clock_reads = 2\<rparr>)"
  by (simp add: program_defs library_defs example_defs)

text \<open>
  Claim C4, evaluated at a 200 response whose body has \<^verbatim>\<open>access_token\<close> and no
  \<^verbatim>\<open>expires_in\<close>, from the state at start-up: the call fails with \<^verbatim>\<open>KeyError\<close>, and line 78
  has already stored the token, so \<^verbatim>\<open>access_token\<close> is set while \<^verbatim>\<open>token_expiry\<close> is not.
\<close>

theorem C4_token_stored_without_expiry:
  "get_access_token (example_env frozen_clock (\<lambda>k q. token_reply_no_expiry ''tok1''))
      initial_world =
     (Inl (KeyError ''expires_in''),
      \<lparr>access_token = JStr ''tok1'', token_expiry = None,
       sent = [token_request (example_env frozen_clock (\<lambda>k q. token_reply_no_expiry ''tok1''))],
       clock_reads = 2\<rparr>)"
  by (simp add: program_defs library_defs example_defs)



section \<open>Concurrent refreshes\<close>

lemma run_append: "run E (xs @ ys) c = run E ys (run E xs c)"
  by (induction xs arbitrary: c) simp_all

lemma token_begin_miss:
  "\<not> cache_usable (now E (clock_reads w)) w \<Longrightarrow>
   token_begin E w =
     (Inr (length (sent w)),
      w\<lparr>clock_reads := Suc (clock_reads w), sent := sent w @ [token_request E]\<rparr>)"
  by (simp add: token_begin_def read_clock_def send_def)

lemma get_access_token_segments:
  "get_access_token E w =
     (case token_begin E w of
        (Inl tok, w1) \<Rightarrow> (Inr tok, w1)
      | (Inr k, w1) \<Rightarrow> handle_token_response E (http E k (token_request E)) w1)"
  by (simp add: get_access_token_def token_begin_def read_clock_def send_def)

lemma starts:
  assumes "\<forall>k. \<not> cache_usable (now E k) w"
  shows "j \<le> N \<Longrightarrow>
     run E (map Start [0..<j]) (replicate N NotStarted, w) =
       (map Awaiting [length (sent w)..<length (sent w) + j] @ replicate (N - j) NotStarted,
        w\<lparr>clock_reads := clock_reads w + j,
          sent := sent w @ replicate j (token_request E)\<rparr>)"
proof (induction j)
  case 0
  then show ?case by simp
next
  case (Suc j)
  let ?w = "w\<lparr>clock_reads := clock_reads w + j,
          sent := sent w @ replicate j (token_request E)\<rparr>"
  let ?ts = "map Awaiting [length (sent w)..<length (sent w) + j] @ replicate (N - j) NotStarted"
  from Suc have IH: "run E (map Start [0..<j]) (replicate N NotStarted, w) = (?ts, ?w)"
    by simp
  have miss: "\<not> cache_usable (now E (clock_reads ?w)) ?w"
    using assms by simp
  have rep: "replicate (N - j) NotStarted = NotStarted # replicate (N - Suc j) NotStarted"
    using Suc.prems by (cases "N - j") (simp_all add: Suc_diff_Suc)
  have nth: "?ts ! j = NotStarted"
    by (simp add: nth_append rep)
  have len: "j < length ?ts"
    using Suc.prems by simp
  have upd: "?ts[j := Awaiting (length (sent w) + j)] =
      map Awaiting [length (sent w)..<length (sent w) + Suc j] @ replicate (N - Suc j) NotStarted"
    by (simp add: list_update_append rep)
  have st: "step E (Start j) (?ts, ?w) =
      (?ts[j := Awaiting (length (sent w) + j)],
       ?w\<lparr>clock_reads := Suc (clock_reads ?w), sent := sent ?w @ [token_request E]\<rparr>)"
    using len nth by (simp add: token_begin_miss[OF miss] del: upt_Suc)
  have "run E (map Start [0..<Suc j]) (replicate N NotStarted, w) =
      run E [Start j] (run E (map Start [0..<j]) (replicate N NotStarted, w))"
    by (simp add: run_append)
  also have "\<dots> = step E (Start j) (?ts, ?w)"
    by (simp only: IH run.simps)
  also have "\<dots> = (?ts[j := Awaiting (length (sent w) + j)],
       ?w\<lparr>clock_reads := Suc (clock_reads ?w), sent := sent ?w @ [token_request E]\<rparr>)"
    by (rule st)
  also have "\<dots> =
      (map Awaiting [length (sent w)..<length (sent w) + Suc j] @
         replicate (N - Suc j) NotStarted,
       w\<lparr>clock_reads := clock_reads w + Suc j,
         sent := sent w @ replicate (Suc j) (token_request E)\<rparr>)"
    by (simp only: upd) (simp add: replicate_append_same)
  finally show ?case .
qed

text \<open>
  Claim C2, as the code has it. There is no lock and no single-flight around the refresh
  path: when \<open>N\<close> calls of \<^verbatim>\<open>get_access_token\<close> start while no cached token is usable,
  each of them running up to its \<^verbatim>\<open>await client.post(...)\<close> before any response is handled,
  every call sends a token request of its own. \<open>N\<close> requests go out and \<open>N\<close> refreshes
  are in flight at once, call \<open>i\<close> waiting for the outcome of request \<open>i\<close>.
\<close>

theorem C2_one_request_per_concurrent_call:
  assumes "\<forall>k. \<not> cache_usable (now E k) w"
  shows "run E (map Start [0..<N]) (replicate N NotStarted, w) =
           (map Awaiting [length (sent w)..<length (sent w) + N],
            w\<lparr>clock_reads := clock_reads w + N,
              sent := sent w @ replicate N (token_request E)\<rparr>)"
  using starts[OF assms, of N N] by simp

text \<open>Two calls from the state at start-up: two token requests.\<close>

theorem C2_witness:
  "(\<forall>k. \<not> cache_usable (now (example_env frozen_clock (\<lambda>k q. token_reply 200 ''tokA'')) k)
          initial_world)
   \<and> run (example_env frozen_clock (\<lambda>k q. token_reply 200 ''tokA'')) [Start 0, Start 1]
        ([NotStarted, NotStarted], initial_world) =
       ([Awaiting 0, Awaiting 1],
        \<lparr>access_token = JNull, token_expiry = None,
         sent = [token_request (example_env frozen_clock (\<lambda>k q. token_reply 200 ''tokA'')),
                 token_request (example_env frozen_clock (\<lambda>k q. token_reply 200 ''tokA''))],
         clock_reads = 2\<rparr>)"
proof -
  let ?E = "example_env frozen_clock (\<lambda>k q. token_reply 200 ''tokA'')"
  have h: "\<forall>k. \<not> cache_usable (now ?E k) initial_world"
    by (simp add: cache_usable_def initial_world_def)
  have l: "map Start [0..<2] = [Start 0, Start 1]"
    by (simp add: numeral_2_eq_2)
  from C2_one_request_per_concurrent_call[OF h, of 2] h show ?thesis
    by (simp add: l initial_world_def numeral_2_eq_2)
qed

text \<open>
  Two calls that both start before either response is handled: two token requests go
  out, and the calls return different tokens.
\<close>

theorem C2_two_requests_counterexample:
  "run (example_env frozen_clock
          (\<lambda>k q. if k = 0 then token_reply 200 ''tokA'' else token_reply 200 ''tokB''))
     [Start 0, Start 1, Resume 0, Resume 1] ([NotStarted, NotStarted], initial_world) =
     ([Returned (Inr (JStr ''tokA'')), Returned (Inr (JStr ''tokB''))],
      \<lparr>access_token = JStr ''tokB'', token_expiry = Some (noon + 240 * 1000000),
       sent = [token_request (example_env frozen_clock
                 (\<lambda>k q. if k = 0 then token_reply 200 ''tokA'' else token_reply 200 ''tokB'')),
               token_request (example_env frozen_clock
                 (\<lambda>k q. if k = 0 then token_reply 200 ''tokA'' else token_reply 200 ''tokB''))],
       clock_reads = 4\<rparr>)"
  by (simp add: schedule_defs program_defs library_defs example_defs)

section \<open>Properties of the API gateway and the tools\<close>



lemma make_api_request_sends:
  "get_access_token E w = (Inr token, w1) \<Longrightarrow>
   upper method = ''GET'' \<or> upper method = ''POST'' \<Longrightarrow>
   make_api_request E method endpoint params json_data w =
     raise_or_json (send E
       \<lparr>req_method = upper method,
        req_url = BASE_URL E @ endpoint,
        req_headers =
          [(''Authorization'', ''Bearer '' @ fmt E token), (''Accept'', ''application/json'')]
          @ (if upper method = ''POST'' then [(''Content-Type'', ''application/json'')] else []),
        req_params = params, req_auth = None, req_data = None,
        req_json = (if upper method = ''POST'' then json_data else None)\<rparr> w1)"
  by (auto simp: make_api_request_def)

lemma raise_or_json_world: "snd (raise_or_json (out, w)) = w"
  by (simp add: raise_or_json_def split: outcome.splits option.splits)


lemma dumped_world: "snd (dumped E rw) = snd rw"
  by (simp add: dumped_def split: prod.splits sum.splits)

lemma make_api_request_sent:
  assumes "fst (get_access_token E w) = Inr token"
    and "upper method = ''GET'' \<or> upper method = ''POST''"
  shows "sent (snd (make_api_request E method endpoint params json_data w)) =
           sent (snd (get_access_token E w)) @
           [\<lparr>req_method = upper method,
             req_url = BASE_URL E @ endpoint,
             req_headers =
               [(''Authorization'', ''Bearer '' @ fmt E token),
                (''Accept'', ''application/json'')]
               @ (if upper method = ''POST'' then [(''Content-Type'', ''application/json'')]
                  else []),
             req_params = params, req_auth = None, req_data = None,
             req_json = (if upper method = ''POST'' then json_data else None)\<rparr>]"
proof -
  obtain w1 where g: "get_access_token E w = (Inr token, w1)"
    using assms(1) by (cases "get_access_token E w") simp
  show ?thesis
    by (simp add: make_api_request_sends[OF g assms(2)] g send_def raise_or_json_world)
qed

lemma upper_GET_POST: "upper ''GET'' = ''GET''" "upper ''POST'' = ''POST''"
  by (simp_all add: upper_def upper_char_def)



text \<open>
  Claim C7. \<^verbatim>\<open>transfer_multiple(accountId, transferList, profileId)\<close>, once it has its
  token, sends one request: a POST to
  \<^verbatim>\<open>/za/pb/v1/accounts/{accountId}/transfermultiple\<close> whose JSON body maps
  \<^verbatim>\<open>transferList\<close> to the given list, followed by \<^verbatim>\<open>profileId\<close> mapped to the given
  profile exactly when \<^verbatim>\<open>profileId\<close> is not \<^verbatim>\<open>None\<close>.
\<close>

theorem C7_transfer_multiple_request:
  assumes "fst (get_access_token E w) = Inr token"
  shows "sent (snd (transfer_multiple E accountId transferList profileId w)) =
           sent (snd (get_access_token E w)) @
           [\<lparr>req_method = ''POST'',
             req_url = BASE_URL E @ ''/za/pb/v1/accounts/'' @ accountId @ ''/transfermultiple'',
             req_headers =
               [(''Authorization'', ''Bearer '' @ fmt E token),
                (''Accept'', ''application/json''),
                (''Content-Type'', ''application/json'')],
             req_params = None, req_auth = None, req_data = None,
             req_json = Some (JObj
               ((''transferList'', JList (map str_dict transferList)) #
                (case profileId of None \<Rightarrow> [] | Some p \<Rightarrow> [(''profileId'', JStr p)])))\<rparr>]"
  using make_api_request_sent[OF assms, of "''POST''"]
  by (cases profileId) (simp_all add: transfer_multiple_def dumped_world upper_GET_POST)

text \<open>The transfer of the specification, without and with \<^verbatim>\<open>profileId\<close>.\<close>

theorem C7_witness:
  "fst (get_access_token (example_env frozen_clock (\<lambda>k q. Reply balance_ok))
      (cached_world ''tok1'' (noon + 300 * 1000000))) = Inr (JStr ''tok1'')
   \<and> map req_json (sent (snd (transfer_multiple
        (example_env frozen_clock (\<lambda>k q. Reply balance_ok)) ''acc1''
        [[(''beneficiaryAccountId'', ''b1''), (''amount'', ''100.00''),
          (''myReference'', ''r1''), (''theirReference'', ''r2'')]] None
        (cached_world ''tok1'' (noon + 300 * 1000000))))) =
       [Some (JObj [(''transferList'', JList [JObj
          [(''beneficiaryAccountId'', JStr ''b1''), (''amount'', JStr ''100.00''),
           (''myReference'', JStr ''r1''), (''theirReference'', JStr ''r2'')]])])]
   \<and> sent (snd (transfer_multiple
        (example_env frozen_clock (\<lambda>k q. Reply balance_ok)) ''acc1''
        [[(''beneficiaryAccountId'', ''b1''), (''amount'', ''100.00''),
          (''myReference'', ''r1''), (''theirReference'', ''r2'')]] (Some ''p1'')
        (cached_world ''tok1'' (noon + 300 * 1000000)))) =
       [\<lparr>req_method = ''POST'',
         req_url = ''https://openapi.investec.com/za/pb/v1/accounts/acc1/transfermultiple'',
         req_headers = [(''Authorization'', ''Bearer tok1''), (''Accept'', ''application/json''),
                        (''Content-Type'', ''application/json'')],
         req_params = None, req_auth = None, req_data = None,
         req_json = Some (JObj [(''transferList'', JList [JObj
             [(''beneficiaryAccountId'', JStr ''b1''), (''amount'', JStr ''100.00''),
              (''myReference'', JStr ''r1''), (''theirReference'', JStr ''r2'')]]),
            (''profileId'', JStr ''p1'')])\<rparr>]"
  using C7_transfer_multiple_request[of "example_env frozen_clock (\<lambda>k q. Reply balance_ok)"
      "cached_world ''tok1'' (noon + 300 * 1000000)" "JStr ''tok1''" "''acc1''"
      "[[(''beneficiaryAccountId'', ''b1''), (''amount'', ''100.00''),
          (''myReference'', ''r1''), (''theirReference'', ''r2'')]]" None]
    C7_transfer_multiple_request[of "example_env frozen_clock (\<lambda>k q. Reply balance_ok)"
      "cached_world ''tok1'' (noon + 300 * 1000000)" "JStr ''tok1''" "''acc1''"
      "[[(''beneficiaryAccountId'', ''b1''), (''amount'', ''100.00''),
          (''myReference'', ''r1''), (''theirReference'', ''r2'')]]" "Some ''p1''"]
  by (simp add: tool_defs program_defs library_defs example_defs)




text \<open>
  Claim C9, as the code has it. \<^verbatim>\<open>make_api_request\<close> first obtains a token; with the
  token and a method that is \<^verbatim>\<open>GET\<close> or \<^verbatim>\<open>POST\<close> after \<^verbatim>\<open>upper()\<close>, it then sends one
  request to \<^verbatim>\<open>BASE_URL + endpoint\<close> with the headers \<^verbatim>\<open>Authorization: Bearer <token>\<close> and
  \<^verbatim>\<open>Accept: application/json\<close>, and with \<^verbatim>\<open>Content-Type: application/json\<close> exactly when
  the method is \<^verbatim>\<open>POST\<close>, whether a body is given or not.
\<close>

theorem C9_request_and_headers:
  assumes "fst (get_access_token E w) = Inr token"
    and "upper method = ''GET'' \<or> upper method = ''POST''"
  shows "sent (snd (make_api_request E method endpoint params json_data w)) =
           sent (snd (get_access_token E w)) @
           [\<lparr>req_method = upper method,
             req_url = BASE_URL E @ endpoint,
             req_headers =
               [(''Authorization'', ''Bearer '' @ fmt E token),
                (''Accept'', ''application/json'')]
               @ (if upper method = ''POST'' then [(''Content-Type'', ''application/json'')]
                  else []),
             req_params = params, req_auth = None, req_data = None,
             req_json = (if upper method = ''POST'' then json_data else None)\<rparr>]"
proof -
  obtain w1 where g: "get_access_token E w = (Inr token, w1)"
    using assms(1) by (cases "get_access_token E w") simp
  show ?thesis
    by (simp add: make_api_request_sends[OF g assms(2)] g send_def raise_or_json_world)
qed

text \<open>A \<^verbatim>\<open>GET\<close> and a \<^verbatim>\<open>POST\<close> with a body.\<close>

theorem C9_witness:
  "sent (snd (make_api_request (example_env frozen_clock (\<lambda>k q. Reply balance_ok)) ''GET''
        ''/za/pb/v1/accounts'' None None (cached_world ''tok1'' (noon + 300 * 1000000)))) =
     [\<lparr>req_method = ''GET'',
       req_url = ''https://openapi.investec.com/za/pb/v1/accounts'',
       req_headers = [(''Authorization'', ''Bearer tok1''), (''Accept'', ''application/json'')],
       req_params = None, req_auth = None, req_data = None, req_json = None\<rparr>]
   \<and> sent (snd (make_api_request (example_env frozen_clock (\<lambda>k q. Reply balance_ok)) ''POST''
        ''/za/pb/v1/accounts/acc1/paymultiple'' None (Some (JObj [(''paymentList'', JList [])]))
        (cached_world ''tok1'' (noon + 300 * 1000000)))) =
     [\<lparr>req_method = ''POST'',
       req_url = ''https://openapi.investec.com/za/pb/v1/accounts/acc1/paymultiple'',
       req_headers = [(''Authorization'', ''Bearer tok1''), (''Accept'', ''application/json''),
                      (''Content-Type'', ''application/json'')],
       req_params = None, req_auth = None, req_data = None,
       req_json = Some (JObj [(''paymentList'', JList [])])\<rparr>]"
  using C9_request_and_headers[of "example_env frozen_clock (\<lambda>k q. Reply balance_ok)"
      "cached_world ''tok1'' (noon + 300 * 1000000)" "JStr ''tok1''" "''GET''"
      "''/za/pb/v1/accounts''" None None]
    C9_request_and_headers[of "example_env frozen_clock (\<lambda>k q. Reply balance_ok)"
      "cached_world ''tok1'' (noon + 300 * 1000000)" "JStr ''tok1''" "''POST''"
      "''/za/pb/v1/accounts/acc1/paymultiple''" None "Some (JObj [(''paymentList'', JList [])])"]
  by (simp add: program_defs library_defs example_defs)

text \<open>A \<^verbatim>\<open>POST\<close> without a body still carries \<^verbatim>\<open>Content-Type: application/json\<close>.\<close>

theorem C9_content_type_without_body_counterexample:
  "sent (snd (make_api_request (example_env frozen_clock (\<lambda>k q. Reply balance_ok)) ''POST''
        ''/za/pb/v1/accounts/acc1/paymultiple'' None None
        (cached_world ''tok1'' (noon + 300 * 1000000)))) =
     [\<lparr>req_method = ''POST'',
       req_url = ''https://openapi.investec.com/za/pb/v1/accounts/acc1/paymultiple'',
       req_headers = [(''Authorization'', ''Bearer tok1''), (''Accept'', ''application/json''),
                      (''Content-Type'', ''application/json'')],
       req_params = None, req_auth = None, req_data = None, req_json = None\<rparr>]"
  by (simp add: program_defs library_defs example_defs)

text \<open>
  Claim C10. \<^verbatim>\<open>get_account_transactions\<close>, once it has its token, sends one GET whose
  query holds \<^verbatim>\<open>fromDate\<close>, \<^verbatim>\<open>toDate\<close> and \<^verbatim>\<open>transactionType\<close> exactly when they are
  non-empty strings (not empty, not \<^verbatim>\<open>None\<close>), and \<^verbatim>\<open>includePending\<close> as the string
  \<^verbatim>\<open>true\<close> exactly when the argument is \<^verbatim>\<open>True\<close>; nothing is sent for \<^verbatim>\<open>False\<close>.
\<close>

theorem C10_transactions_query:
  assumes "fst (get_access_token E w) = Inr token"
  shows "sent (snd (get_account_transactions E accountId fromDate toDate transactionType
                      includePending w)) =
           sent (snd (get_access_token E w)) @
           [\<lparr>req_method = ''GET'',
             req_url = BASE_URL E @ ''/za/pb/v1/accounts/'' @ accountId @ ''/transactions'',
             req_headers =
               [(''Authorization'', ''Bearer '' @ fmt E token),
                (''Accept'', ''application/json'')],
             req_params = Some
               ((if fromDate \<noteq> [] then [(''fromDate'', JStr fromDate)] else []) @
                (if toDate \<noteq> [] then [(''toDate'', JStr toDate)] else []) @
                (case transactionType of
                   None \<Rightarrow> []
                 | Some t \<Rightarrow> if t \<noteq> [] then [(''transactionType'', JStr t)] else []) @
                (if includePending = Some True then [(''includePending'', JStr ''true'')]
                 else [])),
             req_auth = None, req_data = None, req_json = None\<rparr>]"
  using make_api_request_sent[OF assms, of "''GET''"]
  by (cases transactionType)
     (simp_all add: get_account_transactions_def dumped_world upper_GET_POST)

text \<open>Only \<^verbatim>\<open>fromDate\<close> given, and all four arguments given.\<close>

theorem C10_witness:
  "map req_params (sent (snd (get_account_transactions
        (example_env frozen_clock (\<lambda>k q. Reply balance_ok)) ''acc1'' ''2024-01-01'' [] None
        (Some False) (cached_world ''tok1'' (noon + 300 * 1000000))))) =
     [Some [(''fromDate'', JStr ''2024-01-01'')]]
   \<and> map req_params (sent (snd (get_account_transactions
        (example_env frozen_clock (\<lambda>k q. Reply balance_ok)) ''acc1'' ''2024-01-01''
        ''2024-01-31'' (Some ''CardPurchases'') (Some True)
        (cached_world ''tok1'' (noon + 300 * 1000000))))) =
     [Some [(''fromDate'', JStr ''2024-01-01''), (''toDate'', JStr ''2024-01-31''),
            (''transactionType'', JStr ''CardPurchases''),
            (''includePending'', JStr ''true'')]]"
  using C10_transactions_query[of "example_env frozen_clock (\<lambda>k q. Reply balance_ok)"
      "cached_world ''tok1'' (noon + 300 * 1000000)" "JStr ''tok1''" "''acc1''"
      "''2024-01-01''" "[]" None "Some False"]
    C10_transactions_query[of "example_env frozen_clock (\<lambda>k q. Reply balance_ok)"
      "cached_world ''tok1'' (noon + 300 * 1000000)" "JStr ''tok1''" "''acc1''"
      "''2024-01-01''" "''2024-01-31''" "Some ''CardPurchases''" "Some True"]
  by (simp add: program_defs library_defs example_defs)

end
